theory Spec2Isabelle
  imports Main "HOL-Library.AList" "HOL-Library.Multiset"
begin

section \<open>Data model (scheme.ts, openai.ts)\<close>

text \<open>
  A string is the list of its code units, so \<open>length\<close> is JavaScript's \<open>.length\<close>;
  a column that may be null, or a key that may be absent, is an
  \<open>option\<close> (\<open>None\<close> reads as null/undefined). \<open>createdAt\<close> is the number of milliseconds
  its value stands for, an \<open>int\<close>; whether that is the time value of a valid Date is
  decided where the code reads it, by \<open>getTime\<close>. Identifiers are JavaScript
  numbers holding small non-negative integers, on which \<open>++\<close> is exact; they are \<open>nat\<close>.
  Field names carry a prefix per record, since the source reuses \<open>id\<close>, \<open>title\<close>,
  \<open>content\<close>, \<open>platform\<close>, ... across its types.
\<close>

type_synonym timestamp = int

text \<open>openai.ts, the \<open>metadata\<close> member of \<open>GeneratedContent\<close>.\<close>

record metadata =
  estimatedDuration :: "string option"
  wordCount :: int
  characterCount :: int
  tone :: string
  targetAudience :: string

text \<open>openai.ts, \<open>ContentGenerationRequest\<close> and \<open>GeneratedContent\<close>.\<close>

record ContentGenerationRequest =
  q_platform :: string
  q_contentType :: string
  q_brief :: string
  q_images :: "string list"
  q_template :: "string option"

record GeneratedContent =
  g_title :: string
  g_content :: string
  g_hashtags :: "string list"
  g_metadata :: metadata

text \<open>scheme.ts, table \<open>content\<close>: the row type \<open>Content\<close> and the insert type
  \<open>InsertContent\<close> (the row without \<open>id\<close> and \<open>createdAt\<close>).\<close>

record Content =
  c_id :: nat
  c_userId :: int
  c_title :: string
  c_description :: "string option"
  c_platform :: string
  c_contentType :: string
  c_brief :: string
  c_generatedContent :: string
  c_images :: "string list option"
  c_metadata :: "metadata option"
  c_createdAt :: timestamp

record InsertContent =
  i_userId :: int
  i_title :: string
  i_description :: "string option"
  i_platform :: string
  i_contentType :: string
  i_brief :: string
  i_generatedContent :: string
  i_images :: "string list option"
  i_metadata :: "metadata option"

text \<open>
  The second argument of \<open>updateContent\<close> is declared \<open>Partial<InsertContent>\<close>, but the
  PUT handler passes \<open>req.body\<close> as it arrived, and the object spread copies every own key
  of it. The record below is the part of such an object that names a field of
  \<open>Content\<close>: one optional entry per field, \<open>id\<close> and \<open>createdAt\<close> included;
  \<open>None\<close> is an absent key.
\<close>

record ContentUpdates =
  u_id :: "nat option"
  u_userId :: "int option"
  u_title :: "string option"
  u_description :: "string option option"
  u_platform :: "string option"
  u_contentType :: "string option"
  u_brief :: "string option"
  u_generatedContent :: "string option"
  u_images :: "string list option option"
  u_metadata :: "metadata option option"
  u_createdAt :: "timestamp option"

section \<open>The JavaScript Map and the sort (storage.ts)\<close>

text \<open>
  A JavaScript \<open>Map\<close> iterates in insertion order of its keys; \<open>set\<close> on a key that is
  present replaces the value where it stands, on a new key it appends; \<open>delete\<close> removes
  the entry and says whether there was one. The map is the list of its entries in
  iteration order.
\<close>

type_synonym ('k, 'v) js_map = "('k \<times> 'v) list"

definition js_map_get :: "('k, 'v) js_map \<Rightarrow> 'k \<Rightarrow> 'v option" where
  "js_map_get m k = map_of m k"

definition js_map_set :: "'k \<Rightarrow> 'v \<Rightarrow> ('k, 'v) js_map \<Rightarrow> ('k, 'v) js_map" where
  "js_map_set k v m = AList.update k v m"

definition js_map_delete :: "'k \<Rightarrow> ('k, 'v) js_map \<Rightarrow> ('k, 'v) js_map \<times> bool" where
  "js_map_delete k m = (AList.delete k m, map_of m k \<noteq> None)"

definition js_map_values :: "('k, 'v) js_map \<Rightarrow> 'v list" where
  "js_map_values m = map snd m"

text \<open>
  A comparator returns a JavaScript number, which may be NaN: \<open>None\<close> here. The sort
  reads NaN as zero.
\<close>

definition nan_as_zero :: "int option \<Rightarrow> int" where
  "nan_as_zero v = (case v of None \<Rightarrow> 0 | Some n \<Rightarrow> n)"

text \<open>
  ECMAScript fixes the result of \<open>Array.prototype.sort\<close> only for a comparator that is
  consistent on the elements of the array: it never returns NaN on them, every element
  compares equal to itself, comparing equal is symmetric and transitive, and so are
  comparing less and comparing greater. The check below runs over all triples of the
  elements.
\<close>

definition consistent :: "('a \<Rightarrow> 'a \<Rightarrow> int option) \<Rightarrow> 'a list \<Rightarrow> bool" where
  "consistent comparefn xs =
     list_all (\<lambda>a.
       comparefn a a = Some 0 \<and>
       list_all (\<lambda>b.
         comparefn a b \<noteq> None \<and>
         (if comparefn a b = Some 0 then comparefn b a = Some 0 else True) \<and>
         list_all (\<lambda>c.
           (if nan_as_zero (comparefn a b) = 0 \<and> nan_as_zero (comparefn b c) = 0
            then nan_as_zero (comparefn a c) = 0 else True) \<and>
           (if nan_as_zero (comparefn a b) < 0 \<and> nan_as_zero (comparefn b c) < 0
            then nan_as_zero (comparefn a c) < 0 else True) \<and>
           (if nan_as_zero (comparefn a b) > 0 \<and> nan_as_zero (comparefn b c) > 0
            then nan_as_zero (comparefn a c) > 0 else True)) xs) xs) xs"

text \<open>
  For a consistent comparator the sort is stable: \<open>a\<close> comes before \<open>b\<close> when the
  comparator is negative on them, and elements that compare equal keep their order. That
  result does not depend on the algorithm; it is written here as insertion sort, each
  element inserted in front of the elements that followed it. For a comparator that is
  not consistent on the array, the order is left to the implementation: the model takes
  the implementation's answer as the function \<open>engine\<close>, of which nothing is assumed.
\<close>

fun insert_by :: "('a \<Rightarrow> 'a \<Rightarrow> int) \<Rightarrow> 'a \<Rightarrow> 'a list \<Rightarrow> 'a list" where
  "insert_by cmp x [] = [x]"
| "insert_by cmp x (y # ys) = (if cmp x y \<le> 0 then x # y # ys else y # insert_by cmp x ys)"

definition js_sort ::
  "(('a \<Rightarrow> 'a \<Rightarrow> int option) \<Rightarrow> 'a list \<Rightarrow> 'a list) \<Rightarrow>
   ('a \<Rightarrow> 'a \<Rightarrow> int option) \<Rightarrow> 'a list \<Rightarrow> 'a list" where
  "js_sort engine comparefn xs =
     (if consistent comparefn xs
      then foldr (insert_by (\<lambda>a b. nan_as_zero (comparefn a b))) xs []
      else engine comparefn xs)"

section \<open>MemStorage (storage.ts)\<close>

text \<open>
  The content map and its counter. The constructor starts from the empty map and the
  counter 1. Every method takes the store and returns it with its result; \<open>new Date()\<close>
  in \<open>createContent\<close> is the argument \<open>now\<close>. The two methods that sort take the sort of
  the implementation, \<open>engine\<close>, as their first argument.
\<close>

record MemStorage =
  content :: "(nat, Content) js_map"
  currentContentId :: nat

definition MemStorage_new :: MemStorage where
  "MemStorage_new = \<lparr>content = [], currentContentId = 1\<rparr>"

definition getContent :: "MemStorage \<Rightarrow> nat \<Rightarrow> Content option" where
  "getContent s i = js_map_get (content s) i"

text \<open>
  \<open>new Date(v).getTime()\<close>: the time value of a Date lies within 8.64e15 milliseconds of
  the epoch, and a Date made from anything else is invalid, its time value NaN. A
  \<open>createdAt\<close> that is not a date at all (which only an update can store) reads as NaN
  too, as an integer out of that range does, and is represented by one.
\<close>

definition getTime :: "timestamp \<Rightarrow> int option" where
  "getTime v = (if - 8640000000000000 \<le> v \<and> v \<le> 8640000000000000 then Some v else None)"

text \<open>Subtraction of JavaScript numbers: NaN when an operand is NaN. Of the difference
  of two time values the sort uses the sign only.\<close>

fun subtract :: "int option \<Rightarrow> int option \<Rightarrow> int option" where
  "subtract (Some x) (Some y) = Some (x - y)"
| "subtract x y = None"

text \<open>The comparator
  \<^verbatim>\<open>(a, b) => new Date(b.createdAt).getTime() - new Date(a.createdAt).getTime()\<close>.\<close>

definition compare_createdAt :: "Content \<Rightarrow> Content \<Rightarrow> int option" where
  "compare_createdAt a b = subtract (getTime (c_createdAt b)) (getTime (c_createdAt a))"

text \<open>\<^verbatim>\<open>Array.from(this.content.values())
 .filter(content => content.userId === userId)
 .sort((a, b) => new Date(b.createdAt).getTime() - new Date(a.createdAt).getTime())\<close>\<close>

definition getContentByUserId ::
  "((Content \<Rightarrow> Content \<Rightarrow> int option) \<Rightarrow> Content list \<Rightarrow> Content list) \<Rightarrow>
   MemStorage \<Rightarrow> int \<Rightarrow> Content list" where
  "getContentByUserId engine s userId =
     js_sort engine compare_createdAt
       (filter (\<lambda>c. c_userId c = userId) (js_map_values (content s)))"

text \<open>\<^verbatim>\<open>const id = this.currentContentId++;
const newContent: Content = { ...insertContent, id, createdAt: new Date() };
this.content.set(id, newContent); return newContent;\<close>\<close>

definition createContent :: "MemStorage \<Rightarrow> timestamp \<Rightarrow> InsertContent \<Rightarrow> MemStorage \<times> Content" where
  "createContent s now insertContent =
     (let i = currentContentId s;
          newContent = \<lparr>c_id = i,
            c_userId = i_userId insertContent,
            c_title = i_title insertContent,
            c_description = i_description insertContent,
            c_platform = i_platform insertContent,
            c_contentType = i_contentType insertContent,
            c_brief = i_brief insertContent,
            c_generatedContent = i_generatedContent insertContent,
            c_images = i_images insertContent,
            c_metadata = i_metadata insertContent,
            c_createdAt = now\<rparr>
      in (s\<lparr>content := js_map_set i newContent (content s), currentContentId := i + 1\<rparr>,
          newContent))"

text \<open>The object spread \<^verbatim>\<open>{ ...existing, ...updates }\<close>: a key of \<open>updates\<close> wins.\<close>

definition spread :: "'a \<Rightarrow> 'a option \<Rightarrow> 'a" where
  "spread old new = (case new of None \<Rightarrow> old | Some v \<Rightarrow> v)"

definition merge_updates :: "Content \<Rightarrow> ContentUpdates \<Rightarrow> Content" where
  "merge_updates existing updates =
     \<lparr>c_id = spread (c_id existing) (u_id updates),
      c_userId = spread (c_userId existing) (u_userId updates),
      c_title = spread (c_title existing) (u_title updates),
      c_description = spread (c_description existing) (u_description updates),
      c_platform = spread (c_platform existing) (u_platform updates),
      c_contentType = spread (c_contentType existing) (u_contentType updates),
      c_brief = spread (c_brief existing) (u_brief updates),
      c_generatedContent = spread (c_generatedContent existing) (u_generatedContent updates),
      c_images = spread (c_images existing) (u_images updates),
      c_metadata = spread (c_metadata existing) (u_metadata updates),
      c_createdAt = spread (c_createdAt existing) (u_createdAt updates)\<rparr>"

text \<open>\<^verbatim>\<open>const existing = this.content.get(id);
if (!existing) return undefined;
const updated: Content = { ...existing, ...updates };
this.content.set(id, updated); return updated;\<close>\<close>

definition updateContent :: "MemStorage \<Rightarrow> nat \<Rightarrow> ContentUpdates \<Rightarrow> MemStorage \<times> Content option" where
  "updateContent s i updates =
     (case js_map_get (content s) i of
        None \<Rightarrow> (s, None)
      | Some existing \<Rightarrow>
          (let updated = merge_updates existing updates
           in (s\<lparr>content := js_map_set i updated (content s)\<rparr>, Some updated)))"

definition deleteContent :: "MemStorage \<Rightarrow> nat \<Rightarrow> MemStorage \<times> bool" where
  "deleteContent s i =
     (case js_map_delete i (content s) of (m, deleted) \<Rightarrow> (s\<lparr>content := m\<rparr>, deleted))"

subsection \<open>getContentStats and its counting object\<close>

text \<open>
  \<open>platformCounts\<close> is an object literal \<open>{}\<close> used as a dictionary, so a read of a key
  it does not own continues in \<open>Object.prototype\<close>. The names below are the properties
  of \<open>Object.prototype\<close>; each holds a function or an object, which is truthy, and \<open>+ 1\<close>
  turns it into the string given beside it followed by \<open>1\<close>. An assignment creates or
  replaces an own property, except under the name \<open>__proto__\<close>, whose setter ignores a
  value that is neither an object nor null. The values the loop can store are numbers
  and strings.
\<close>

datatype jsval = Num nat | Str string

datatype lookup = Undefined | Own jsval | Inherited string

definition native_function :: "string \<Rightarrow> string" where
  "native_function name = ''function '' @ name @ ''() { [native code] }''"

definition Object_prototype :: "(string \<times> string) list" where
  "Object_prototype =
     [(''constructor'', native_function ''Object''),
      (''__proto__'', ''[object Object]''),
      (''hasOwnProperty'', native_function ''hasOwnProperty''),
      (''isPrototypeOf'', native_function ''isPrototypeOf''),
      (''propertyIsEnumerable'', native_function ''propertyIsEnumerable''),
      (''toLocaleString'', native_function ''toLocaleString''),
      (''toString'', native_function ''toString''),
      (''valueOf'', native_function ''valueOf''),
      (''__defineGetter__'', native_function ''__defineGetter__''),
      (''__defineSetter__'', native_function ''__defineSetter__''),
      (''__lookupGetter__'', native_function ''__lookupGetter__''),
      (''__lookupSetter__'', native_function ''__lookupSetter__'')]"

definition object_get :: "(string \<times> jsval) list \<Rightarrow> string \<Rightarrow> lookup" where
  "object_get obj k =
     (case map_of obj k of
        Some v \<Rightarrow> Own v
      | None \<Rightarrow> (case map_of Object_prototype k of Some f \<Rightarrow> Inherited f | None \<Rightarrow> Undefined))"

definition object_set :: "(string \<times> jsval) list \<Rightarrow> string \<Rightarrow> jsval \<Rightarrow> (string \<times> jsval) list" where
  "object_set obj k v = (if k = ''__proto__'' then obj else AList.update k v obj)"

text \<open>\<^verbatim>\<open>(platformCounts[content.platform] || 0) + 1\<close>: zero, the empty string and
  undefined are falsy; \<open>+\<close> with a string operand concatenates.\<close>

fun or_zero_plus_one :: "lookup \<Rightarrow> jsval" where
  "or_zero_plus_one Undefined = Num 1"
| "or_zero_plus_one (Own (Num n)) = (if n = 0 then Num (0 + 1) else Num (n + 1))"
| "or_zero_plus_one (Own (Str t)) = (if t = [] then Num (0 + 1) else Str (t @ ''1''))"
| "or_zero_plus_one (Inherited f) = Str (f @ ''1'')"

definition count_platform :: "(string \<times> jsval) list \<Rightarrow> Content \<Rightarrow> (string \<times> jsval) list" where
  "count_platform platformCounts c =
     object_set platformCounts (c_platform c)
       (or_zero_plus_one (object_get platformCounts (c_platform c)))"

record ContentStats =
  totalContent :: nat
  aiGenerated :: nat
  platforms :: nat
  byPlatform :: "(string \<times> jsval) list"

definition getContentStats ::
  "((Content \<Rightarrow> Content \<Rightarrow> int option) \<Rightarrow> Content list \<Rightarrow> Content list) \<Rightarrow>
   MemStorage \<Rightarrow> int \<Rightarrow> ContentStats" where
  "getContentStats engine s userId =
     (let userContent = getContentByUserId engine s userId;
          platformCounts = foldl count_platform [] userContent
      in \<lparr>totalContent = length userContent,
          aiGenerated = length userContent,
          platforms = length (map fst platformCounts),
          byPlatform = platformCounts\<rparr>)"

section \<open>The HTTP handlers (routes)\<close>

text \<open>
  A response is its status and its JSON body; \<open>res.json\<close> without \<open>res.status\<close> sends
  200. The body of the generation endpoint is \<^verbatim>\<open>{ id: savedContent.id, ...generatedContent }\<close>.
\<close>

record GenerateResponse =
  r_id :: nat
  r_title :: string
  r_content :: string
  r_hashtags :: "string list"
  r_metadata :: metadata

datatype body =
    ErrorBody string
  | ContentBody Content
  | GeneratedBody GenerateResponse
  | AnalysisBody string

record response =
  status :: nat
  body :: body

text \<open>
  An uploaded file is its \<open>buffer\<close>, a sequence of bytes. \<open>buffer.toString('base64')\<close>
  is a library function; the handlers take it as the argument \<open>base64\<close>.
\<close>

type_synonym buffer = "char list"

text \<open>
  The request of \<open>POST /api/content/generate\<close>: the four fields read from \<open>req.body\<close>
  (a multipart text field is a string, or absent) and \<open>req.files\<close>.
\<close>

record GenerateRequest =
  body_platform :: "string option"
  body_contentType :: "string option"
  body_brief :: "string option"
  body_template :: "string option"
  files :: "buffer list option"

text \<open>Truthiness of a value that is a string or undefined: only the empty string and
  undefined are falsy.\<close>

definition truthy :: "string option \<Rightarrow> bool" where
  "truthy v = (case v of None \<Rightarrow> False | Some t \<Rightarrow> t \<noteq> [])"

text \<open>
  The generation handler. \<open>generateContent\<close> is the provider adapter, a collaborator
  the handler awaits: it returns the generated content or throws an Error, whose message
  is \<open>Inl\<close>. The handler returns its response, the store as it leaves it, and the
  requests it passed to the adapter, in order.
  \<^verbatim>\<open>
  const { platform, contentType, brief, template } = req.body;
  if (!platform || !contentType || !brief) { return res.status(400).json({ error: ... }); }
  const images: string[] = [];
  if (req.files && Array.isArray(req.files)) {
    for (const file of req.files) { images.push(file.buffer.toString('base64')); } }
  const generatedContent = await generateContent({ platform, contentType, brief, images, template });
  const savedContent = await storage.createContent({ userId: 1, title: generatedContent.title,
    description: brief, platform, contentType, brief, generatedContent: generatedContent.content,
    images: [], metadata: generatedContent.metadata });
  res.json({ id: savedContent.id, ...generatedContent });
  } catch (error) { res.status(500).json({ error: "Failed to generate content: " + error.message }); }
  \<close>
\<close>

definition generate_handler ::
  "(buffer \<Rightarrow> string) \<Rightarrow> (ContentGenerationRequest \<Rightarrow> string + GeneratedContent) \<Rightarrow>
   timestamp \<Rightarrow> MemStorage \<Rightarrow> GenerateRequest \<Rightarrow>
   response \<times> MemStorage \<times> ContentGenerationRequest list" where
  "generate_handler base64 generateContent now storage req =
     (if \<not> truthy (body_platform req) \<or> \<not> truthy (body_contentType req) \<or> \<not> truthy (body_brief req)
      then (\<lparr>status = 400,
              body = ErrorBody ''Missing required fields: platform, contentType, brief''\<rparr>,
            storage, [])
      else
        (let platform = the (body_platform req);
             contentType = the (body_contentType req);
             brief = the (body_brief req);
             images = (case files req of None \<Rightarrow> [] | Some fs \<Rightarrow> map base64 fs);
             greq = \<lparr>q_platform = platform, q_contentType = contentType, q_brief = brief,
                     q_images = images, q_template = body_template req\<rparr>
         in case generateContent greq of
              Inl message \<Rightarrow>
                (\<lparr>status = 500, body = ErrorBody (''Failed to generate content: '' @ message)\<rparr>,
                 storage, [greq])
            | Inr generatedContent \<Rightarrow>
                (case createContent storage now
                        \<lparr>i_userId = 1,
                         i_title = g_title generatedContent,
                         i_description = Some brief,
                         i_platform = platform,
                         i_contentType = contentType,
                         i_brief = brief,
                         i_generatedContent = g_content generatedContent,
                         i_images = Some [],
                         i_metadata = Some (g_metadata generatedContent)\<rparr> of
                   (storage', savedContent) \<Rightarrow>
                     (\<lparr>status = 200,
                       body = GeneratedBody
                         \<lparr>r_id = c_id savedContent,
                          r_title = g_title generatedContent,
                          r_content = g_content generatedContent,
                          r_hashtags = g_hashtags generatedContent,
                          r_metadata = g_metadata generatedContent\<rparr>\<rparr>,
                      storage', [greq]))))"

text \<open>
  The image analysis handler; \<open>file\<close> is \<open>req.file\<close>, absent when the request carries
  no image part, and \<open>analyzeImage\<close> the provider capability. It returns its response
  and the arguments it passed to \<open>analyzeImage\<close>.
  \<^verbatim>\<open>
  if (!req.file) { return res.status(400).json({ error: "No image file provided" }); }
  const base64 = req.file.buffer.toString('base64');
  const analysis = await analyzeImage(base64);
  res.json({ analysis });
  } catch (error) { res.status(500).json({ error: "Failed to analyze image: " + error.message }); }
  \<close>
\<close>

definition analyze_handler ::
  "(buffer \<Rightarrow> string) \<Rightarrow> (string \<Rightarrow> string + string) \<Rightarrow> buffer option \<Rightarrow>
   response \<times> string list" where
  "analyze_handler base64 analyzeImage file =
     (case file of
        None \<Rightarrow> (\<lparr>status = 400, body = ErrorBody ''No image file provided''\<rparr>, [])
      | Some buf \<Rightarrow>
          (case analyzeImage (base64 buf) of
             Inl message \<Rightarrow>
               (\<lparr>status = 500, body = ErrorBody (''Failed to analyze image: '' @ message)\<rparr>,
                [base64 buf])
           | Inr analysis \<Rightarrow> (\<lparr>status = 200, body = AnalysisBody analysis\<rparr>, [base64 buf])))"

text \<open>
  \<open>PUT /api/content/:id\<close>, with \<open>parseInt(req.params.id)\<close> already a number and the
  body passed on unchecked.
  \<^verbatim>\<open>
  const updates = req.body;
  const content = await storage.updateContent(id, updates);
  if (!content) { return res.status(404).json({ error: "Content not found" }); }
  res.json(content);
  \<close>
\<close>

definition put_handler :: "MemStorage \<Rightarrow> nat \<Rightarrow> ContentUpdates \<Rightarrow> response \<times> MemStorage" where
  "put_handler storage i updates =
     (case updateContent storage i updates of
        (storage', None) \<Rightarrow> (\<lparr>status = 404, body = ErrorBody ''Content not found''\<rparr>, storage')
      | (storage', Some c) \<Rightarrow> (\<lparr>status = 200, body = ContentBody c\<rparr>, storage'))"

section \<open>The provider adapter's result (openai.ts)\<close>

text \<open>
  Of the adapter, the repository's files hold the two interfaces above; the body of
  \<open>generateContent\<close> is not among them. What it does with the provider's answer is
  taken from the specification, section 4.1 (output normalization).
\<close>

text \<open>The provider's answer once parsed: the three generated fields, and the metadata
  fields it may or may not have supplied.\<close>

record ProviderPayload =
  p_title :: string
  p_content :: string
  p_hashtags :: "string list"
  p_estimatedDuration :: "string option"
  p_wordCount :: "int option"
  p_characterCount :: "int option"
  p_tone :: "string option"
  p_targetAudience :: "string option"

definition is_whitespace :: "char \<Rightarrow> bool" where
  "is_whitespace c = (c \<in> set [CHR '' '', CHR 0x09, CHR 0x0A, CHR 0x0B, CHR 0x0C, CHR 0x0D])"

text \<open>Modelled from the spec: the split of the content string on whitespace, which the
  missing body of \<open>generateContent\<close> performs to count words ("computed locally from the
  final content string by splitting on whitespace"). \<open>cur\<close> is the piece being read.\<close>

fun split_aux :: "string \<Rightarrow> string \<Rightarrow> string list" where
  "split_aux cur [] = (if cur = [] then [] else [cur])"
| "split_aux cur (c # cs) =
     (if is_whitespace c then (if cur = [] then split_aux [] cs else cur # split_aux [] cs)
      else split_aux (cur @ [c]) cs)"

definition split_whitespace :: "string \<Rightarrow> string list" where
  "split_whitespace t = split_aux [] t"

text \<open>Modelled from the spec: the output normalization of the missing body of
  \<open>generateContent\<close>. Tone and target audience default to "Professional" and "General",
  the estimated duration stays absent, and the two counts are computed from the content
  string, whatever the provider sent for them.\<close>

definition normalize :: "ProviderPayload \<Rightarrow> GeneratedContent" where
  "normalize p =
     \<lparr>g_title = p_title p,
      g_content = p_content p,
      g_hashtags = p_hashtags p,
      g_metadata =
        \<lparr>estimatedDuration = p_estimatedDuration p,
         wordCount = int (length (split_whitespace (p_content p))),
         characterCount = int (length (p_content p)),
         tone = (case p_tone p of None \<Rightarrow> ''Professional'' | Some t \<Rightarrow> t),
         targetAudience = (case p_targetAudience p of None \<Rightarrow> ''General'' | Some a \<Rightarrow> a)\<rparr>\<rparr>"

text \<open>Modelled from the spec: the missing function \<open>generateContent\<close>, over the upstream
  call \<open>provider\<close> (building the instruction, calling the service and parsing its answer;
  \<open>Inl\<close> is an upstream error, a timeout or an answer that does not parse). A failure is
  passed on as it is, with no retry.\<close>

definition generateContent_spec ::
  "(ContentGenerationRequest \<Rightarrow> string + ProviderPayload) \<Rightarrow>
   ContentGenerationRequest \<Rightarrow> string + GeneratedContent" where
  "generateContent_spec provider q =
     (case provider q of Inl message \<Rightarrow> Inl message | Inr p \<Rightarrow> Inr (normalize p))"

text \<open>The number of whitespace-delimited tokens of a string, counted at the characters
  where a token begins: a character that is not whitespace and does not follow one
  (\<open>inside\<close> says that the previous character was part of a token).\<close>

fun count_tokens :: "bool \<Rightarrow> string \<Rightarrow> nat" where
  "count_tokens inside [] = 0"
| "count_tokens inside (c # cs) =
     (if is_whitespace c then count_tokens False cs
      else (if inside then 0 else 1) + count_tokens True cs)"

definition token_count :: "string \<Rightarrow> nat" where
  "token_count t = count_tokens False t"

section \<open>Runs of the store, readings of the statistics, sample data\<close>

text \<open>A sequence of calls on the content store, and the ids that its \<open>createContent\<close>
  calls returned, in order.\<close>

datatype store_op =
    Create timestamp InsertContent
  | Update nat ContentUpdates
  | Delete nat

fun apply_op :: "MemStorage \<Rightarrow> store_op \<Rightarrow> MemStorage \<times> nat list" where
  "apply_op s (Create now ins) =
     (case createContent s now ins of (s', c) \<Rightarrow> (s', [c_id c]))"
| "apply_op s (Update i updates) = (fst (updateContent s i updates), [])"
| "apply_op s (Delete i) = (fst (deleteContent s i), [])"

fun run_ops :: "MemStorage \<Rightarrow> store_op list \<Rightarrow> MemStorage \<times> nat list" where
  "run_ops s [] = (s, [])"
| "run_ops s (x # xs) =
     (case apply_op s x of (s', ids) \<Rightarrow>
        (case run_ops s' xs of (s'', ids') \<Rightarrow> (s'', ids @ ids')))"

text \<open>The sum of the per-platform counts of a \<open>byPlatform\<close> object, when every value
  in it is a number.\<close>

fun counts_sum :: "(string \<times> jsval) list \<Rightarrow> nat option" where
  "counts_sum [] = Some 0"
| "counts_sum ((k, Num n) # rest) = map_option (\<lambda>m. n + m) (counts_sum rest)"
| "counts_sum ((k, Str t) # rest) = None"

text \<open>Sample data: an insert payload for a user and a platform, an update that names
  no field, and a store after four inserts (ids 1 to 4; users 1, 1, 2, 1; clock 10, 20,
  20, 20).\<close>

definition example_insert :: "int \<Rightarrow> string \<Rightarrow> InsertContent" where
  "example_insert u p =
     \<lparr>i_userId = u, i_title = ''title'', i_description = None, i_platform = p,
      i_contentType = ''post'', i_brief = ''brief'', i_generatedContent = ''text'',
      i_images = None, i_metadata = None\<rparr>"

definition no_updates :: ContentUpdates where
  "no_updates =
     \<lparr>u_id = None, u_userId = None, u_title = None, u_description = None,
      u_platform = None, u_contentType = None, u_brief = None, u_generatedContent = None,
      u_images = None, u_metadata = None, u_createdAt = None\<rparr>"

definition example_store :: MemStorage where
  "example_store =
     fst (run_ops MemStorage_new
       [Create 10 (example_insert 1 ''twitter''),
        Create 20 (example_insert 1 ''youtube''),
        Create 20 (example_insert 2 ''twitter''),
        Create 20 (example_insert 1 ''twitter'')])"

section \<open>Theorems\<close>

subsection \<open>The content store: create, get, delete\<close>

lemma js_map_get_set: "js_map_get (js_map_set k v m) k' = (if k' = k then Some v else js_map_get m k')"
  by (simp add: js_map_get_def js_map_set_def update_conv')

lemma js_map_get_delete: "js_map_get (fst (js_map_delete k m)) k' = (if k' = k then None else js_map_get m k')"
  by (simp add: js_map_get_def js_map_delete_def delete_conv')

text \<open>
  C6. For every store and every insert payload, \<open>getContent\<close> on the id of the record
  that \<open>createContent\<close> returned yields that record; and for every id, \<open>getContent\<close>
  after \<open>deleteContent\<close> of that id yields the not-found value \<open>None\<close>.
\<close>

theorem create_get_delete_get:
  "getContent (fst (createContent s now ins)) (c_id (snd (createContent s now ins)))
     = Some (snd (createContent s now ins))
   \<and> getContent (fst (deleteContent s i)) i = None"
proof
  show "getContent (fst (createContent s now ins)) (c_id (snd (createContent s now ins)))
     = Some (snd (createContent s now ins))"
    by (simp add: getContent_def createContent_def Let_def js_map_get_set)
next
  have "js_map_get (fst (js_map_delete i (content s))) i = None"
    by (simp add: js_map_get_delete)
  then show "getContent (fst (deleteContent s i)) i = None"
    by (simp add: getContent_def deleteContent_def case_prod_beta)
qed

subsection \<open>The generation handler\<close>

text \<open>
  C1. If a call the generation handler makes to the provider adapter fails, the handler
  answers 500 with the adapter's message, the store is exactly the store before the
  request (content map and counter), and that call was the only one.
\<close>

theorem adapter_failure_persists_nothing:
  assumes "generate_handler base64 generateContent now s req = (resp, s', calls)"
    and "q \<in> set calls"
    and "generateContent q = Inl message"
  shows "s' = s \<and> status resp = 500
    \<and> body resp = ErrorBody (''Failed to generate content: '' @ message)
    \<and> calls = [q]"
  using assms
  by (auto simp: generate_handler_def Let_def split: if_splits sum.splits prod.splits)

theorem adapter_failure_persists_nothing_witness:
  "generate_handler (\<lambda>b. b) (\<lambda>q. Inl ''upstream timeout'') 5 MemStorage_new
      \<lparr>body_platform = Some ''twitter'', body_contentType = Some ''thread'',
       body_brief = Some ''a brief'', body_template = None, files = None\<rparr>
    = (\<lparr>status = 500, body = ErrorBody ''Failed to generate content: upstream timeout''\<rparr>,
       MemStorage_new,
       [\<lparr>q_platform = ''twitter'', q_contentType = ''thread'', q_brief = ''a brief'',
         q_images = [], q_template = None\<rparr>])"
proof -
  let ?q = "\<lparr>q_platform = ''twitter'', q_contentType = ''thread'', q_brief = ''a brief'',
         q_images = [], q_template = None\<rparr>"
  let ?g = "\<lambda>q::ContentGenerationRequest. (Inl ''upstream timeout'' :: string + GeneratedContent)"
  let ?req = "\<lparr>body_platform = Some ''twitter'', body_contentType = Some ''thread'',
       body_brief = Some ''a brief'', body_template = None, files = None\<rparr>"
  obtain resp s' calls
    where h: "generate_handler (\<lambda>b. b) ?g 5 MemStorage_new ?req = (resp, s', calls)"
    by (cases "generate_handler (\<lambda>b. b) ?g 5 MemStorage_new ?req") blast
  have c: "calls = [?q]"
    using h by (simp add: generate_handler_def truthy_def)
  have m: "?g ?q = Inl ''upstream timeout''"
    by simp
  have q: "?q \<in> set calls"
    using c by simp
  from adapter_failure_persists_nothing [OF h q m]
  have "s' = MemStorage_new" "status resp = 500"
    "body resp = ErrorBody (''Failed to generate content: '' @ ''upstream timeout'')"
    by simp_all
  then have "resp = \<lparr>status = 500, body = ErrorBody ''Failed to generate content: upstream timeout''\<rparr>"
    by (cases resp) simp
  with h c \<open>s' = MemStorage_new\<close> show ?thesis
    by simp
qed

text \<open>
  C2. If \<open>platform\<close>, \<open>contentType\<close> or \<open>brief\<close> is absent or the empty string, the
  generation handler answers 400, leaves the store as it was and passes nothing to the
  provider adapter, whatever the adapter is.
\<close>

theorem missing_field_rejected:
  assumes "body_platform req = None \<or> body_platform req = Some []
     \<or> body_contentType req = None \<or> body_contentType req = Some []
     \<or> body_brief req = None \<or> body_brief req = Some []"
  shows "generate_handler base64 generateContent now s req
    = (\<lparr>status = 400, body = ErrorBody ''Missing required fields: platform, contentType, brief''\<rparr>,
       s, [])"
  using assms by (auto simp: generate_handler_def truthy_def)

theorem missing_field_rejected_witness:
  "generate_handler (\<lambda>b. b) (\<lambda>q. Inl ''never called'') 5 MemStorage_new
      \<lparr>body_platform = Some ''twitter'', body_contentType = Some ''thread'',
       body_brief = None, body_template = None, files = None\<rparr>
    = (\<lparr>status = 400, body = ErrorBody ''Missing required fields: platform, contentType, brief''\<rparr>,
       MemStorage_new, [])"
  using missing_field_rejected [of "\<lparr>body_platform = Some ''twitter'',
       body_contentType = Some ''thread'', body_brief = None, body_template = None,
       files = None\<rparr>" "\<lambda>b. b" "\<lambda>q. Inl ''never called''" 5 MemStorage_new]
  by simp

text \<open>
  C8. A generation request with the three required fields whose adapter call succeeds
  persists, under the store's next id, the record with \<open>userId\<close> 1 (the fixed principal),
  \<open>description\<close> the submitted brief, \<open>images\<close> the empty sequence and \<open>metadata\<close> the
  adapter's metadata; \<open>id\<close> is the store's counter and \<open>createdAt\<close> the clock at
  \<open>createContent\<close>, neither taken from the request or the adapter. The answer is 200
  with that id and the adapter's title, content, hashtags and metadata. The counter
  advances by one and no other key of the store changes.
\<close>

theorem persisted_record_and_response:
  assumes "body_platform req = Some platform" and "platform \<noteq> []"
    and "body_contentType req = Some contentType" and "contentType \<noteq> []"
    and "body_brief req = Some brief" and "brief \<noteq> []"
    and "generateContent
           \<lparr>q_platform = platform, q_contentType = contentType, q_brief = brief,
            q_images = (case files req of None \<Rightarrow> [] | Some fs \<Rightarrow> map base64 fs),
            q_template = body_template req\<rparr> = Inr g"
    and "generate_handler base64 generateContent now s req = (resp, s', calls)"
  shows "getContent s' (currentContentId s) =
           Some \<lparr>c_id = currentContentId s, c_userId = 1, c_title = g_title g,
                 c_description = Some brief, c_platform = platform,
                 c_contentType = contentType, c_brief = brief,
                 c_generatedContent = g_content g, c_images = Some [],
                 c_metadata = Some (g_metadata g), c_createdAt = now\<rparr>
    \<and> resp = \<lparr>status = 200,
               body = GeneratedBody \<lparr>r_id = currentContentId s, r_title = g_title g,
                        r_content = g_content g, r_hashtags = g_hashtags g,
                        r_metadata = g_metadata g\<rparr>\<rparr>
    \<and> currentContentId s' = currentContentId s + 1
    \<and> getContent s' j =
        (if j = currentContentId s then getContent s' (currentContentId s) else getContent s j)"
  using assms
  by (auto simp: generate_handler_def truthy_def Let_def createContent_def getContent_def
      js_map_get_set)

theorem persisted_record_and_response_witness:
  "\<exists>resp s' calls.
     generate_handler (\<lambda>b. b)
       (\<lambda>q. Inr \<lparr>g_title = ''Launch'', g_content = ''We are live'', g_hashtags = [''#go''],
           g_metadata = \<lparr>estimatedDuration = None, wordCount = 3, characterCount = 11,
             tone = ''Professional'', targetAudience = ''General''\<rparr>\<rparr>)
       5 MemStorage_new
       \<lparr>body_platform = Some ''twitter'', body_contentType = Some ''thread'',
        body_brief = Some ''announce the launch'', body_template = None,
        files = Some [''png-bytes'']\<rparr> = (resp, s', calls)
     \<and> getContent s' 1 =
           Some \<lparr>c_id = 1, c_userId = 1, c_title = ''Launch'',
                 c_description = Some ''announce the launch'', c_platform = ''twitter'',
                 c_contentType = ''thread'', c_brief = ''announce the launch'',
                 c_generatedContent = ''We are live'', c_images = Some [],
                 c_metadata = Some \<lparr>estimatedDuration = None, wordCount = 3,
                   characterCount = 11, tone = ''Professional'', targetAudience = ''General''\<rparr>,
                 c_createdAt = 5\<rparr>
     \<and> resp = \<lparr>status = 200,
               body = GeneratedBody \<lparr>r_id = 1, r_title = ''Launch'',
                        r_content = ''We are live'', r_hashtags = [''#go''],
                        r_metadata = \<lparr>estimatedDuration = None, wordCount = 3,
                          characterCount = 11, tone = ''Professional'',
                          targetAudience = ''General''\<rparr>\<rparr>\<rparr>
     \<and> currentContentId s' = 2"
proof -
  let ?G = "\<lparr>g_title = ''Launch'', g_content = ''We are live'', g_hashtags = [''#go''],
           g_metadata = \<lparr>estimatedDuration = None, wordCount = 3, characterCount = 11,
             tone = ''Professional'', targetAudience = ''General''\<rparr>\<rparr>"
  let ?gen = "\<lambda>q::ContentGenerationRequest. (Inr ?G :: string + GeneratedContent)"
  let ?req = "\<lparr>body_platform = Some ''twitter'', body_contentType = Some ''thread'',
        body_brief = Some ''announce the launch'', body_template = None,
        files = Some [''png-bytes'']\<rparr>"
  obtain resp s' calls
    where h: "generate_handler (\<lambda>b. b) ?gen 5 MemStorage_new ?req = (resp, s', calls)"
    by (cases "generate_handler (\<lambda>b. b) ?gen 5 MemStorage_new ?req") blast
  have n: "currentContentId MemStorage_new = 1"
    by (simp add: MemStorage_new_def)
  have "body_platform ?req = Some ''twitter''" "''twitter'' \<noteq> []"
    "body_contentType ?req = Some ''thread''" "''thread'' \<noteq> []"
    "body_brief ?req = Some ''announce the launch''" "''announce the launch'' \<noteq> []"
    "?gen \<lparr>q_platform = ''twitter'', q_contentType = ''thread'',
            q_brief = ''announce the launch'',
            q_images = (case files ?req of None \<Rightarrow> [] | Some fs \<Rightarrow> map (\<lambda>b. b) fs),
            q_template = body_template ?req\<rparr> = Inr ?G"
    by simp_all
  from persisted_record_and_response [OF this h, of 1] h show ?thesis
    by (simp add: n)
qed

subsection \<open>The image analysis handler\<close>

text \<open>
  C10. When the request carries no image part, the analysis handler answers 400 with
  the error "No image file provided" and passes nothing to \<open>analyzeImage\<close>; and when it
  answers 500, an image part was present and the call to \<open>analyzeImage\<close> on its
  encoding is what failed.
\<close>

theorem no_image_part_rejected:
  "(file = None \<longrightarrow>
      analyze_handler base64 analyzeImage file
        = (\<lparr>status = 400, body = ErrorBody ''No image file provided''\<rparr>, []))
   \<and> (status (fst (analyze_handler base64 analyzeImage file)) = 500 \<longrightarrow>
        (\<exists>buf message. file = Some buf \<and> analyzeImage (base64 buf) = Inl message
           \<and> snd (analyze_handler base64 analyzeImage file) = [base64 buf]))"
  by (auto simp: analyze_handler_def split: option.splits sum.splits)

theorem no_image_part_rejected_witness:
  "analyze_handler (\<lambda>b. b) (\<lambda>i. Inl ''quota exceeded'') None
     = (\<lparr>status = 400, body = ErrorBody ''No image file provided''\<rparr>, [])
   \<and> status (fst (analyze_handler (\<lambda>b. b) (\<lambda>i. Inl ''quota exceeded'') (Some ''png-bytes''))) = 500
   \<and> (\<exists>buf message. Some ''png-bytes'' = Some buf
         \<and> (Inl ''quota exceeded'' :: string + string) = Inl message
         \<and> snd (analyze_handler (\<lambda>b. b) (\<lambda>i. Inl ''quota exceeded'') (Some ''png-bytes''))
             = [buf])"
proof -
  let ?a = "\<lambda>i::string. (Inl ''quota exceeded'' :: string + string)"
  have none: "(None :: buffer option) = None"
    by simp
  have s500: "status (fst (analyze_handler (\<lambda>b. b) ?a (Some ''png-bytes''))) = 500"
    by (simp add: analyze_handler_def)
  from no_image_part_rejected [of None "\<lambda>b. b" ?a] none
  have a: "analyze_handler (\<lambda>b. b) ?a None
     = (\<lparr>status = 400, body = ErrorBody ''No image file provided''\<rparr>, [])"
    by blast
  from no_image_part_rejected [of "Some ''png-bytes''" "\<lambda>b. b" ?a] s500
  have b: "\<exists>buf message. Some ''png-bytes'' = Some buf
         \<and> ?a buf = Inl message
         \<and> snd (analyze_handler (\<lambda>b. b) ?a (Some ''png-bytes'')) = [buf]"
    by blast
  from a s500 b show ?thesis
    by simp
qed

subsection \<open>Word and character counts\<close>

lemma length_split_aux:
  "length (split_aux cur t) = (if cur = [] then 0 else 1) + count_tokens (cur \<noteq> []) t"
  by (induction t arbitrary: cur) auto

lemma length_split_whitespace: "length (split_whitespace t) = token_count t"
  by (simp add: split_whitespace_def token_count_def length_split_aux)

text \<open>
  C3. Whenever the generation handler, run over the adapter as the specification
  describes it, answers with generated content, the answer's \<open>metadata.wordCount\<close> is the
  number of whitespace-delimited tokens of the answer's \<open>content\<close> and its
  \<open>characterCount\<close> is the length of that string, whatever the provider sent for the two
  fields.
\<close>

theorem counts_computed_locally:
  assumes "generate_handler base64 (generateContent_spec provider) now s req = (resp, s', calls)"
    and "body resp = GeneratedBody r"
  shows "wordCount (r_metadata r) = int (token_count (r_content r))
    \<and> characterCount (r_metadata r) = int (length (r_content r))"
  using assms
  by (auto simp: generate_handler_def generateContent_spec_def normalize_def Let_def
      length_split_whitespace createContent_def split: if_splits sum.splits)

theorem counts_computed_locally_witness:
  "\<exists>resp s' calls r.
     generate_handler (\<lambda>b. b)
       (generateContent_spec (\<lambda>q. Inr \<lparr>p_title = ''Launch'',
          p_content = '' We  are live '', p_hashtags = [], p_estimatedDuration = None,
          p_wordCount = Some 999, p_characterCount = Some 0, p_tone = None,
          p_targetAudience = None\<rparr>))
       5 MemStorage_new
       \<lparr>body_platform = Some ''twitter'', body_contentType = Some ''thread'',
        body_brief = Some ''announce the launch'', body_template = None, files = None\<rparr>
       = (resp, s', calls)
     \<and> body resp = GeneratedBody r
     \<and> r_content r = '' We  are live ''
     \<and> wordCount (r_metadata r) = 3 \<and> characterCount (r_metadata r) = 14"
proof -
  let ?P = "\<lparr>p_title = ''Launch'',
          p_content = '' We  are live '', p_hashtags = [], p_estimatedDuration = None,
          p_wordCount = Some 999, p_characterCount = Some 0, p_tone = None,
          p_targetAudience = None\<rparr>"
  let ?prov = "\<lambda>q::ContentGenerationRequest. (Inr ?P :: string + ProviderPayload)"
  let ?req = "\<lparr>body_platform = Some ''twitter'', body_contentType = Some ''thread'',
        body_brief = Some ''announce the launch'', body_template = None, files = None\<rparr>"
  obtain resp s' calls where h:
    "generate_handler (\<lambda>b. b) (generateContent_spec ?prov) 5 MemStorage_new ?req
       = (resp, s', calls)"
    by (cases "generate_handler (\<lambda>b. b) (generateContent_spec ?prov) 5 MemStorage_new ?req")
      blast
  have "\<exists>r. body resp = GeneratedBody r \<and> r_content r = '' We  are live ''"
    using h
    by (auto simp: generate_handler_def generateContent_spec_def normalize_def truthy_def
        Let_def createContent_def)
  then obtain r where b: "body resp = GeneratedBody r" and c: "r_content r = '' We  are live ''"
    by blast
  have t: "token_count '' We  are live '' = 3"
    by (simp add: token_count_def is_whitespace_def)
  from counts_computed_locally [OF h b] c t
  have "wordCount (r_metadata r) = 3 \<and> characterCount (r_metadata r) = 14"
    by simp
  with h b c show ?thesis
    by blast
qed

subsection \<open>The content store: listing by owner\<close>

lemma example_store_eq:
  "example_store =
     \<lparr>content =
        [(1, \<lparr>c_id = 1, c_userId = 1, c_title = ''title'', c_description = None,
               c_platform = ''twitter'', c_contentType = ''post'', c_brief = ''brief'',
               c_generatedContent = ''text'', c_images = None, c_metadata = None,
               c_createdAt = 10\<rparr>),
         (2, \<lparr>c_id = 2, c_userId = 1, c_title = ''title'', c_description = None,
               c_platform = ''youtube'', c_contentType = ''post'', c_brief = ''brief'',
               c_generatedContent = ''text'', c_images = None, c_metadata = None,
               c_createdAt = 20\<rparr>),
         (3, \<lparr>c_id = 3, c_userId = 2, c_title = ''title'', c_description = None,
               c_platform = ''twitter'', c_contentType = ''post'', c_brief = ''brief'',
               c_generatedContent = ''text'', c_images = None, c_metadata = None,
               c_createdAt = 20\<rparr>),
         (4, \<lparr>c_id = 4, c_userId = 1, c_title = ''title'', c_description = None,
               c_platform = ''twitter'', c_contentType = ''post'', c_brief = ''brief'',
               c_generatedContent = ''text'', c_images = None, c_metadata = None,
               c_createdAt = 20\<rparr>)],
      currentContentId = 5\<rparr>"
  by (simp add: example_store_def MemStorage_new_def createContent_def example_insert_def
      js_map_set_def Let_def)

lemma insert_by_insort_key:
  "insert_by (\<lambda>a b. key b - key a) x ys = insort_key (\<lambda>c. - key c) x ys"
  for key :: "'a \<Rightarrow> int"
  by (induction ys) auto

lemma foldr_insert_by_sort_key:
  "foldr (insert_by (\<lambda>a b. key b - key a)) xs [] = sort_key (\<lambda>c. - key c) xs"
  for key :: "'a \<Rightarrow> int"
  by (induction xs) (auto simp: sort_key_def insert_by_insort_key)

lemma insert_by_cong:
  "(\<And>y. y \<in> set ys \<Longrightarrow> f x y = g x y) \<Longrightarrow> insert_by f x ys = insert_by g x ys"
  by (induction ys) auto

lemma set_insert_by: "set (insert_by f x ys) = insert x (set ys)"
  by (induction ys) auto

lemma set_foldr_insert_by: "set (foldr (insert_by f) xs []) = set xs"
  by (induction xs) (auto simp: set_insert_by)

lemma foldr_insert_by_cong:
  "(\<And>a b. a \<in> set xs \<Longrightarrow> b \<in> set xs \<Longrightarrow> f a b = g a b) \<Longrightarrow>
   foldr (insert_by f) xs [] = foldr (insert_by g) xs []"
proof (induction xs)
  case Nil
  then show ?case by simp
next
  case (Cons x xs)
  have r: "foldr (insert_by f) xs [] = foldr (insert_by g) xs []"
    using Cons.prems by (intro Cons.IH) simp_all
  have "insert_by f x (foldr (insert_by g) xs []) = insert_by g x (foldr (insert_by g) xs [])"
    using Cons.prems by (intro insert_by_cong) (simp add: set_foldr_insert_by)
  then show ?case
    by (simp add: r)
qed

lemma compare_createdAt_valid:
  "getTime (c_createdAt a) \<noteq> None \<Longrightarrow> getTime (c_createdAt b) \<noteq> None \<Longrightarrow>
   compare_createdAt a b = Some (c_createdAt b - c_createdAt a)"
  by (auto simp: compare_createdAt_def getTime_def split: if_splits)

lemma consistent_valid:
  assumes "list_all (\<lambda>c. getTime (c_createdAt c) \<noteq> None) xs"
  shows "consistent compare_createdAt xs"
proof -
  have v: "compare_createdAt a b = Some (c_createdAt b - c_createdAt a)"
    if "a \<in> set xs" "b \<in> set xs" for a b
    using assms that by (intro compare_createdAt_valid) (auto simp: list_all_iff)
  show ?thesis
    by (auto simp: consistent_def list_all_iff v nan_as_zero_def)
qed

lemma js_sort_valid:
  assumes "list_all (\<lambda>c. getTime (c_createdAt c) \<noteq> None) xs"
  shows "js_sort engine compare_createdAt xs = sort_key (\<lambda>c. - c_createdAt c) xs"
proof -
  have v: "nan_as_zero (compare_createdAt a b) = c_createdAt b - c_createdAt a"
    if "a \<in> set xs" "b \<in> set xs" for a b
    using assms that compare_createdAt_valid [of a b]
    by (auto simp: list_all_iff nan_as_zero_def)
  have "js_sort engine compare_createdAt xs
      = foldr (insert_by (\<lambda>a b. nan_as_zero (compare_createdAt a b))) xs []"
    by (simp add: js_sort_def consistent_valid [OF assms])
  also have "\<dots> = foldr (insert_by (\<lambda>a b. c_createdAt b - c_createdAt a)) xs []"
    by (rule foldr_insert_by_cong) (rule v)
  also have "\<dots> = sort_key (\<lambda>c. - c_createdAt c) xs"
    by (rule foldr_insert_by_sort_key)
  finally show ?thesis .
qed

lemma getContentByUserId_valid:
  "list_all (\<lambda>c. getTime (c_createdAt c) \<noteq> None)
     (filter (\<lambda>c. c_userId c = userId) (js_map_values (content s))) \<Longrightarrow>
   getContentByUserId engine s userId
     = sort_key (\<lambda>c. - c_createdAt c)
         (filter (\<lambda>c. c_userId c = userId) (js_map_values (content s)))"
  by (simp add: getContentByUserId_def js_sort_valid)

lemma example_store_user1:
  "getContentByUserId engine example_store 1 =
     [\<lparr>c_id = 2, c_userId = 1, c_title = ''title'', c_description = None,
        c_platform = ''youtube'', c_contentType = ''post'', c_brief = ''brief'',
        c_generatedContent = ''text'', c_images = None, c_metadata = None,
        c_createdAt = 20\<rparr>,
      \<lparr>c_id = 4, c_userId = 1, c_title = ''title'', c_description = None,
        c_platform = ''twitter'', c_contentType = ''post'', c_brief = ''brief'',
        c_generatedContent = ''text'', c_images = None, c_metadata = None,
        c_createdAt = 20\<rparr>,
      \<lparr>c_id = 1, c_userId = 1, c_title = ''title'', c_description = None,
        c_platform = ''twitter'', c_contentType = ''post'', c_brief = ''brief'',
        c_generatedContent = ''text'', c_images = None, c_metadata = None,
        c_createdAt = 10\<rparr>]"
proof -
  have "list_all (\<lambda>c. getTime (c_createdAt c) \<noteq> None)
     (filter (\<lambda>c. c_userId c = 1) (js_map_values (content example_store)))"
    by (simp add: example_store_eq js_map_values_def getTime_def)
  from getContentByUserId_valid [OF this] show ?thesis
    by (simp add: example_store_eq js_map_values_def)
qed


text \<open>
  X4. For an owner all of whose records have a \<open>createdAt\<close> that is a valid date (as
  every record has whose \<open>createdAt\<close> no update has rewritten), and for every
  implementation of the sort, \<open>getContentByUserId\<close> returns exactly the records of the
  store whose \<open>userId\<close> is the given one (as a multiset), in descending order of
  \<open>createdAt\<close>, and for every time \<open>t\<close> the records created at \<open>t\<close> stand in the order in
  which the store's map holds them, which is the order of their insertion.
\<close>

theorem listByOwner_sorted_stable:
  assumes "list_all (\<lambda>c. getTime (c_createdAt c) \<noteq> None)
     (filter (\<lambda>c. c_userId c = userId) (js_map_values (content s)))"
  shows "mset (getContentByUserId engine s userId)
     = mset (filter (\<lambda>c. c_userId c = userId) (js_map_values (content s)))
   \<and> sorted_wrt (\<lambda>a b. c_createdAt a \<ge> c_createdAt b) (getContentByUserId engine s userId)
   \<and> filter (\<lambda>c. c_createdAt c = t) (getContentByUserId engine s userId)
     = filter (\<lambda>c. c_createdAt c = t)
         (filter (\<lambda>c. c_userId c = userId) (js_map_values (content s)))"
proof -
  let ?owned = "filter (\<lambda>c. c_userId c = userId) (js_map_values (content s))"
  have e: "getContentByUserId engine s userId = sort_key (\<lambda>c. - c_createdAt c) ?owned"
    using assms by (rule getContentByUserId_valid)
  have "sorted (map (\<lambda>c. - c_createdAt c) (getContentByUserId engine s userId))"
    unfolding e by (rule sorted_sort_key)
  then have s: "sorted_wrt (\<lambda>a b. c_createdAt a \<ge> c_createdAt b)
      (getContentByUserId engine s userId)"
    by (simp add: sorted_map)
  have "filter (\<lambda>c. - c_createdAt c = - t) (getContentByUserId engine s userId)
     = filter (\<lambda>c. - c_createdAt c = - t) ?owned"
    unfolding e by (rule sort_key_stable)
  then have f: "filter (\<lambda>c. c_createdAt c = t) (getContentByUserId engine s userId)
     = filter (\<lambda>c. c_createdAt c = t) ?owned"
    by simp
  show ?thesis using s f by (simp add: e)
qed

theorem listByOwner_sorted_stable_witness:
  "list_all (\<lambda>c. getTime (c_createdAt c) \<noteq> None)
     (filter (\<lambda>c. c_userId c = 1) (js_map_values (content example_store)))
   \<and> map c_id (getContentByUserId (\<lambda>f xs. xs) example_store 1) = [2, 4, 1]
   \<and> map c_createdAt (getContentByUserId (\<lambda>f xs. xs) example_store 1) = [20, 20, 10]
   \<and> sorted_wrt (\<lambda>a b. c_createdAt a \<ge> c_createdAt b)
       (getContentByUserId (\<lambda>f xs. xs) example_store 1)
   \<and> map c_id (filter (\<lambda>c. c_createdAt c = 20) (getContentByUserId (\<lambda>f xs. xs) example_store 1))
     = map c_id (filter (\<lambda>c. c_createdAt c = 20)
         (filter (\<lambda>c. c_userId c = 1) (js_map_values (content example_store))))"
proof -
  have v: "list_all (\<lambda>c. getTime (c_createdAt c) \<noteq> None)
     (filter (\<lambda>c. c_userId c = 1) (js_map_values (content example_store)))"
    by (simp add: example_store_eq js_map_values_def getTime_def)
  from listByOwner_sorted_stable [OF v, of "\<lambda>f xs. xs" 20] v show ?thesis
    by (simp add: example_store_user1)
qed

subsection \<open>The content store: update\<close>

lemma updateContent_miss: "getContent s i = None \<Longrightarrow> updateContent s i updates = (s, None)"
  by (simp add: updateContent_def getContent_def)

lemma updateContent_hit:
  "getContent s i = Some existing \<Longrightarrow>
   updateContent s i updates
     = (s\<lparr>content := js_map_set i (merge_updates existing updates) (content s)\<rparr>,
        Some (merge_updates existing updates))"
  by (simp add: updateContent_def getContent_def Let_def)

lemma js_map_set_keys_present:
  "js_map_get m k = Some v \<Longrightarrow> map fst (js_map_set k v' m) = map fst m"
proof -
  assume "js_map_get m k = Some v"
  then have "k \<in> set (map fst m)"
    using map_of_SomeD [of m k v] by (force simp: js_map_get_def)
  then show ?thesis
    by (simp add: js_map_set_def update_keys)
qed

text \<open>
  C7. \<open>updateContent\<close> on an id the store does not hold returns the not-found value and
  the store unchanged (so no record is created and the size is the same). On an id it
  holds, the returned record, which is also the one then stored under that id, has for
  each field the value the payload provides, or the existing value when the payload does
  not name the field; every other key, the list of keys and the counter are unchanged.
\<close>

theorem update_miss_and_merge:
  "(getContent s i = None \<longrightarrow> updateContent s i updates = (s, None))
   \<and> (getContent s i = Some existing \<longrightarrow>
        (\<exists>r. snd (updateContent s i updates) = Some r
          \<and> getContent (fst (updateContent s i updates)) i = Some r
          \<and> c_id r = (case u_id updates of None \<Rightarrow> c_id existing | Some v \<Rightarrow> v)
          \<and> c_userId r = (case u_userId updates of None \<Rightarrow> c_userId existing | Some v \<Rightarrow> v)
          \<and> c_title r = (case u_title updates of None \<Rightarrow> c_title existing | Some v \<Rightarrow> v)
          \<and> c_description r
              = (case u_description updates of None \<Rightarrow> c_description existing | Some v \<Rightarrow> v)
          \<and> c_platform r = (case u_platform updates of None \<Rightarrow> c_platform existing | Some v \<Rightarrow> v)
          \<and> c_contentType r
              = (case u_contentType updates of None \<Rightarrow> c_contentType existing | Some v \<Rightarrow> v)
          \<and> c_brief r = (case u_brief updates of None \<Rightarrow> c_brief existing | Some v \<Rightarrow> v)
          \<and> c_generatedContent r
              = (case u_generatedContent updates of None \<Rightarrow> c_generatedContent existing
                 | Some v \<Rightarrow> v)
          \<and> c_images r = (case u_images updates of None \<Rightarrow> c_images existing | Some v \<Rightarrow> v)
          \<and> c_metadata r = (case u_metadata updates of None \<Rightarrow> c_metadata existing | Some v \<Rightarrow> v)
          \<and> c_createdAt r
              = (case u_createdAt updates of None \<Rightarrow> c_createdAt existing | Some v \<Rightarrow> v))
        \<and> getContent (fst (updateContent s i updates)) j
            = (if j = i then snd (updateContent s i updates) else getContent s j)
        \<and> map fst (content (fst (updateContent s i updates))) = map fst (content s)
        \<and> currentContentId (fst (updateContent s i updates)) = currentContentId s)"
proof (intro conjI impI)
  assume "getContent s i = None"
  then show "updateContent s i updates = (s, None)"
    by (rule updateContent_miss)
next
  assume h: "getContent s i = Some existing"
  note u = updateContent_hit [OF h, of updates]
  show "\<exists>r. snd (updateContent s i updates) = Some r
          \<and> getContent (fst (updateContent s i updates)) i = Some r
          \<and> c_id r = (case u_id updates of None \<Rightarrow> c_id existing | Some v \<Rightarrow> v)
          \<and> c_userId r = (case u_userId updates of None \<Rightarrow> c_userId existing | Some v \<Rightarrow> v)
          \<and> c_title r = (case u_title updates of None \<Rightarrow> c_title existing | Some v \<Rightarrow> v)
          \<and> c_description r
              = (case u_description updates of None \<Rightarrow> c_description existing | Some v \<Rightarrow> v)
          \<and> c_platform r = (case u_platform updates of None \<Rightarrow> c_platform existing | Some v \<Rightarrow> v)
          \<and> c_contentType r
              = (case u_contentType updates of None \<Rightarrow> c_contentType existing | Some v \<Rightarrow> v)
          \<and> c_brief r = (case u_brief updates of None \<Rightarrow> c_brief existing | Some v \<Rightarrow> v)
          \<and> c_generatedContent r
              = (case u_generatedContent updates of None \<Rightarrow> c_generatedContent existing
                 | Some v \<Rightarrow> v)
          \<and> c_images r = (case u_images updates of None \<Rightarrow> c_images existing | Some v \<Rightarrow> v)
          \<and> c_metadata r = (case u_metadata updates of None \<Rightarrow> c_metadata existing | Some v \<Rightarrow> v)
          \<and> c_createdAt r
              = (case u_createdAt updates of None \<Rightarrow> c_createdAt existing | Some v \<Rightarrow> v)"
    by (simp add: u getContent_def js_map_get_set merge_updates_def spread_def)
  show "getContent (fst (updateContent s i updates)) j
            = (if j = i then snd (updateContent s i updates) else getContent s j)"
    by (simp add: u getContent_def js_map_get_set)
  show "map fst (content (fst (updateContent s i updates))) = map fst (content s)"
    using h by (simp add: u getContent_def js_map_set_keys_present)
  show "currentContentId (fst (updateContent s i updates)) = currentContentId s"
    by (simp add: u)
qed

theorem update_miss_and_merge_witness:
  "getContent example_store 9 = None
   \<and> updateContent example_store 9 (no_updates\<lparr>u_title := Some ''renamed''\<rparr>)
       = (example_store, None)
   \<and> map_option c_title (getContent example_store 2) = Some ''title''
   \<and> map_option c_title
        (getContent (fst (updateContent example_store 2 (no_updates\<lparr>u_title := Some ''renamed''\<rparr>))) 2)
       = Some ''renamed''
   \<and> map_option c_platform
        (getContent (fst (updateContent example_store 2 (no_updates\<lparr>u_title := Some ''renamed''\<rparr>))) 2)
       = Some ''youtube''
   \<and> map fst (content (fst (updateContent example_store 2 (no_updates\<lparr>u_title := Some ''renamed''\<rparr>))))
       = [1, 2, 3, 4]"
proof -
  let ?u = "no_updates\<lparr>u_title := Some ''renamed''\<rparr>"
  let ?e = "\<lparr>c_id = 2, c_userId = 1, c_title = ''title'', c_description = None,
               c_platform = ''youtube'', c_contentType = ''post'', c_brief = ''brief'',
               c_generatedContent = ''text'', c_images = None, c_metadata = None,
               c_createdAt = 20\<rparr>"
  have miss: "getContent example_store 9 = None"
    by (simp add: example_store_eq getContent_def js_map_get_def)
  have hit: "getContent example_store 2 = Some ?e"
    by (simp add: example_store_eq getContent_def js_map_get_def)
  have keys: "map fst (content example_store) = [1, 2, 3, 4]"
    by (simp add: example_store_eq)
  from update_miss_and_merge [of example_store 9 ?u] miss
  have a: "updateContent example_store 9 ?u = (example_store, None)"
    by blast
  from update_miss_and_merge [of example_store 2 ?u ?e 2] hit
  obtain r where r: "getContent (fst (updateContent example_store 2 ?u)) 2 = Some r"
      "c_title r = (case u_title ?u of None \<Rightarrow> c_title ?e | Some v \<Rightarrow> v)"
      "c_platform r = (case u_platform ?u of None \<Rightarrow> c_platform ?e | Some v \<Rightarrow> v)"
    and k: "map fst (content (fst (updateContent example_store 2 ?u))) = map fst (content example_store)"
    by blast
  from r have "map_option c_title (getContent (fst (updateContent example_store 2 ?u)) 2) = Some ''renamed''"
    "map_option c_platform (getContent (fst (updateContent example_store 2 ?u)) 2) = Some ''youtube''"
    by (simp_all add: no_updates_def)
  with miss a hit k keys show ?thesis
    by simp
qed

subsection \<open>The content store: statistics\<close>

text \<open>
  C4. The statistics of an owner on records whose platform is a property name of
  \<open>Object.prototype\<close>. With one record of platform \<open>__proto__\<close>, \<open>totalContent\<close> and
  \<open>aiGenerated\<close> are 1, but \<open>platforms\<close> is 0 and \<open>byPlatform\<close> is empty: the read finds
  the inherited object, and the assignment of the resulting string is dropped by the
  setter. With one record of platform \<open>constructor\<close>, \<open>byPlatform\<close> holds a string, not a
  count, so its values have no sum.
\<close>

theorem stats_on_prototype_names:
  "map c_platform (getContentByUserId engine
       (fst (createContent MemStorage_new 10 (example_insert 1 ''__proto__''))) 1) = [''__proto__'']
   \<and> getContentStats engine (fst (createContent MemStorage_new 10 (example_insert 1 ''__proto__''))) 1
       = \<lparr>totalContent = 1, aiGenerated = 1, platforms = 0, byPlatform = []\<rparr>
   \<and> getContentStats engine (fst (createContent MemStorage_new 10 (example_insert 1 ''constructor''))) 1
       = \<lparr>totalContent = 1, aiGenerated = 1, platforms = 1,
          byPlatform = [(''constructor'', Str ''function Object() { [native code] }1'')]\<rparr>
   \<and> counts_sum (byPlatform (getContentStats engine
         (fst (createContent MemStorage_new 10 (example_insert 1 ''constructor''))) 1)) = None"
proof -
  have one: "getContentByUserId engine (fst (createContent MemStorage_new 10 (example_insert 1 p))) 1
      = [\<lparr>c_id = 1, c_userId = 1, c_title = ''title'', c_description = None,
          c_platform = p, c_contentType = ''post'', c_brief = ''brief'',
          c_generatedContent = ''text'', c_images = None, c_metadata = None,
          c_createdAt = 10\<rparr>]" for p
  proof -
    have "list_all (\<lambda>c. getTime (c_createdAt c) \<noteq> None)
       (filter (\<lambda>c. c_userId c = 1) (js_map_values (content
          (fst (createContent MemStorage_new 10 (example_insert 1 p))))))"
      by (simp add: createContent_def MemStorage_new_def example_insert_def js_map_set_def
          js_map_values_def getTime_def Let_def)
    from getContentByUserId_valid [OF this] show ?thesis
      by (simp add: createContent_def MemStorage_new_def example_insert_def js_map_set_def
          js_map_values_def Let_def)
  qed
  show ?thesis
    by (simp add: getContentStats_def one Let_def count_platform_def object_get_def
        object_set_def Object_prototype_def native_function_def)
qed

lemma object_get_plain:
  "k \<notin> fst ` set Object_prototype \<Longrightarrow>
   object_get obj k = (case map_of obj k of Some v \<Rightarrow> Own v | None \<Rightarrow> Undefined)"
proof -
  assume "k \<notin> fst ` set Object_prototype"
  then have "map_of Object_prototype k = None"
    by (simp add: map_of_eq_None_iff)
  then show ?thesis
    by (simp add: object_get_def split: option.split)
qed

lemma proto_in_prototype: "''__proto__'' \<in> fst ` set Object_prototype"
  by (simp add: Object_prototype_def)

lemma object_set_plain:
  "k \<notin> fst ` set Object_prototype \<Longrightarrow> object_set obj k v = AList.update k v obj"
  using proto_in_prototype by (auto simp: object_set_def)

lemma counts_sum_update:
  "counts_sum obj = Some n \<Longrightarrow>
   counts_sum (AList.update k
      (or_zero_plus_one (case map_of obj k of Some v \<Rightarrow> Own v | None \<Rightarrow> Undefined)) obj)
     = Some (n + 1)"
proof (induction obj arbitrary: n rule: counts_sum.induct)
  case 1
  then show ?case by simp
next
  case (2 k' m rest)
  then obtain n' where r: "counts_sum rest = Some n'" and n: "n = m + n'"
    by auto
  show ?case
  proof (cases "k' = k")
    case True
    then show ?thesis using r n by simp
  next
    case False
    then show ?thesis using "2.IH" [OF r] n by simp
  qed
next
  case (3 k' t rest)
  then show ?case by simp
qed

lemma count_platform_plain:
  assumes "c_platform c \<notin> fst ` set Object_prototype" and "counts_sum obj = Some n"
  shows "counts_sum (count_platform obj c) = Some (n + 1)"
    and "map fst (count_platform obj c)
      = (if c_platform c \<in> set (map fst obj) then map fst obj else map fst obj @ [c_platform c])"
  using assms
  by (simp_all add: count_platform_def object_get_plain object_set_plain counts_sum_update
      update_keys)

lemma foldl_count_platform:
  assumes "set (map c_platform xs) \<inter> fst ` set Object_prototype = {}"
    and "counts_sum obj = Some n" and "distinct (map fst obj)"
  shows "counts_sum (foldl count_platform obj xs) = Some (n + length xs)
    \<and> distinct (map fst (foldl count_platform obj xs))
    \<and> set (map fst (foldl count_platform obj xs)) = set (map fst obj) \<union> set (map c_platform xs)"
  using assms
proof (induction xs arbitrary: obj n)
  case Nil
  then show ?case by simp
next
  case (Cons c xs)
  have p: "c_platform c \<notin> fst ` set Object_prototype"
    using Cons.prems(1) by auto
  have rest: "set (map c_platform xs) \<inter> fst ` set Object_prototype = {}"
    using Cons.prems(1) by auto
  note cp = count_platform_plain [OF p Cons.prems(2)]
  have d: "distinct (map fst (count_platform obj c))"
    using Cons.prems(3) by (simp add: cp(2))
  from Cons.IH [OF rest cp(1) d] show ?case
    by (auto simp: cp(2))
qed

text \<open>
  X1. For an owner none of whose records has a platform that is a property name of
  \<open>Object.prototype\<close>, \<open>getContentStats\<close> returns \<open>totalContent\<close> equal to the length of
  \<open>getContentByUserId\<close>, \<open>aiGenerated\<close> equal to \<open>totalContent\<close>, \<open>platforms\<close> equal to
  the number of distinct platforms of the owner's records, and a \<open>byPlatform\<close> whose
  values are all numbers and sum to \<open>totalContent\<close>.
\<close>

theorem stats_on_plain_platforms:
  assumes "set (map c_platform (getContentByUserId engine s userId)) \<inter> fst ` set Object_prototype = {}"
  shows "totalContent (getContentStats engine s userId) = length (getContentByUserId engine s userId)
    \<and> aiGenerated (getContentStats engine s userId) = totalContent (getContentStats engine s userId)
    \<and> platforms (getContentStats engine s userId)
        = card (set (map c_platform (getContentByUserId engine s userId)))
    \<and> counts_sum (byPlatform (getContentStats engine s userId))
        = Some (totalContent (getContentStats engine s userId))"
proof -
  have c0: "counts_sum [] = Some 0" by simp
  have d0: "distinct (map fst ([] :: (string \<times> jsval) list))" by simp
  from foldl_count_platform [OF assms c0 d0]
  have f: "counts_sum (foldl count_platform [] (getContentByUserId engine s userId))
             = Some (length (getContentByUserId engine s userId))"
    "distinct (map fst (foldl count_platform [] (getContentByUserId engine s userId)))"
    "set (map fst (foldl count_platform [] (getContentByUserId engine s userId)))
       = set (map c_platform (getContentByUserId engine s userId))"
    by simp_all
  have "length (map fst (foldl count_platform [] (getContentByUserId engine s userId)))
       = card (set (map c_platform (getContentByUserId engine s userId)))"
    using distinct_card [OF f(2)] f(3) by simp
  then show ?thesis
    using f(1) by (simp add: getContentStats_def Let_def)
qed

theorem stats_on_plain_platforms_witness:
  "set (map c_platform (getContentByUserId (\<lambda>f xs. xs) example_store 1))
     \<inter> fst ` set Object_prototype = {}
   \<and> getContentStats (\<lambda>f xs. xs) example_store 1
       = \<lparr>totalContent = 3, aiGenerated = 3, platforms = 2,
          byPlatform = [(''youtube'', Num 1), (''twitter'', Num 2)]\<rparr>
   \<and> length (getContentByUserId (\<lambda>f xs. xs) example_store 1) = 3
   \<and> card (set (map c_platform (getContentByUserId (\<lambda>f xs. xs) example_store 1))) = 2
   \<and> counts_sum (byPlatform (getContentStats (\<lambda>f xs. xs) example_store 1)) = Some 3"
proof -
  have l: "map c_platform (getContentByUserId (\<lambda>f xs. xs) example_store 1)
      = [''youtube'', ''twitter'', ''twitter'']"
    by (simp add: example_store_user1)
  have h: "set (map c_platform (getContentByUserId (\<lambda>f xs. xs) example_store 1))
      \<inter> fst ` set Object_prototype = {}"
    unfolding l by (simp add: Object_prototype_def)
  have e: "getContentStats (\<lambda>f xs. xs) example_store 1
       = \<lparr>totalContent = 3, aiGenerated = 3, platforms = 2,
          byPlatform = [(''youtube'', Num 1), (''twitter'', Num 2)]\<rparr>"
    by (simp add: getContentStats_def example_store_user1 Let_def count_platform_def
        object_get_def object_set_def Object_prototype_def)
  from stats_on_plain_platforms [OF h] e h show ?thesis
    by simp
qed

subsection \<open>Identifiers and creation times\<close>

text \<open>
  C9. An update whose payload names \<open>id\<close> and \<open>createdAt\<close>, sent through the PUT
  handler: the record of id 1, created at 10, is answered 200 and afterwards stored
  under key 1 with \<open>id\<close> 2 and \<open>createdAt\<close> 0, so that two records of the store carry
  the id 2.
\<close>

theorem put_overwrites_id_and_createdAt:
  "map_option c_id (getContent example_store 1) = Some 1
   \<and> map_option c_createdAt (getContent example_store 1) = Some 10
   \<and> status (fst (put_handler example_store 1 (no_updates\<lparr>u_id := Some 2, u_createdAt := Some 0\<rparr>))) = 200
   \<and> map_option c_id (getContent (snd (put_handler example_store 1
         (no_updates\<lparr>u_id := Some 2, u_createdAt := Some 0\<rparr>))) 1) = Some 2
   \<and> map_option c_createdAt (getContent (snd (put_handler example_store 1
         (no_updates\<lparr>u_id := Some 2, u_createdAt := Some 0\<rparr>))) 1) = Some 0
   \<and> map c_id (js_map_values (content (snd (put_handler example_store 1
         (no_updates\<lparr>u_id := Some 2, u_createdAt := Some 0\<rparr>))))) = [2, 2, 3, 4]"
  by (simp add: put_handler_def updateContent_def example_store_eq getContent_def js_map_get_def
      js_map_set_def js_map_values_def merge_updates_def spread_def no_updates_def Let_def)

lemma apply_op_counter:
  "currentContentId s \<le> currentContentId (fst (apply_op s x))"
  by (cases x)
    (simp_all add: createContent_def updateContent_def deleteContent_def Let_def
      case_prod_beta split: option.split)

lemma run_ops_counter:
  "currentContentId s \<le> currentContentId (fst (run_ops s xs))"
proof (induction xs arbitrary: s)
  case Nil
  then show ?case by simp
next
  case (Cons x xs)
  have "currentContentId s \<le> currentContentId (fst (apply_op s x))"
    by (rule apply_op_counter)
  also have "\<dots> \<le> currentContentId (fst (run_ops (fst (apply_op s x)) xs))"
    by (rule Cons.IH)
  finally show ?case
    by (simp add: case_prod_beta)
qed

lemma apply_op_ids:
  "snd (apply_op s x) = [currentContentId s..<currentContentId (fst (apply_op s x))]"
  by (cases x)
    (simp_all add: createContent_def updateContent_def deleteContent_def Let_def
      case_prod_beta split: option.split)

text \<open>
  X2. In every sequence of create, update and delete calls on the store, from any
  store, the ids that the \<open>createContent\<close> calls return are the consecutive values of the
  counter, from its value at the start up to its value at the end: they are pairwise
  distinct, and a deletion or an update never makes an id come back.
\<close>

theorem issued_ids_consecutive:
  "snd (run_ops s xs) = [currentContentId s..<currentContentId (fst (run_ops s xs))]
   \<and> distinct (snd (run_ops s xs))"
proof -
  have "snd (run_ops s xs) = [currentContentId s..<currentContentId (fst (run_ops s xs))]"
  proof (induction xs arbitrary: s)
    case Nil
    then show ?case by simp
  next
    case (Cons x xs)
    let ?s1 = "fst (apply_op s x)"
    have a: "currentContentId s \<le> currentContentId ?s1"
      by (rule apply_op_counter)
    have b: "currentContentId ?s1 \<le> currentContentId (fst (run_ops ?s1 xs))"
      by (rule run_ops_counter)
    have "snd (run_ops s (x # xs)) = snd (apply_op s x) @ snd (run_ops ?s1 xs)"
      by (simp add: case_prod_beta)
    also have "\<dots> = [currentContentId s..<currentContentId ?s1]
        @ [currentContentId ?s1..<currentContentId (fst (run_ops ?s1 xs))]"
      by (simp add: apply_op_ids Cons.IH)
    also have "\<dots> = [currentContentId s..<currentContentId (fst (run_ops ?s1 xs))]"
      using a b upt_add_eq_append [of "currentContentId s" "currentContentId ?s1"
          "currentContentId (fst (run_ops ?s1 xs)) - currentContentId ?s1"]
      by simp
    finally show ?case
      by (simp add: case_prod_beta)
  qed
  then show ?thesis
    by simp
qed

text \<open>
  X3. An update whose payload names neither \<open>id\<close> nor \<open>createdAt\<close> leaves both as they
  were in the record it updates.
\<close>

theorem update_keeps_id_and_createdAt:
  assumes "u_id updates = None" and "u_createdAt updates = None"
    and "getContent s i = Some existing"
  shows "\<exists>r. getContent (fst (updateContent s i updates)) i = Some r
    \<and> snd (updateContent s i updates) = Some r
    \<and> c_id r = c_id existing \<and> c_createdAt r = c_createdAt existing"
  using assms
  by (simp add: updateContent_hit getContent_def js_map_get_set merge_updates_def spread_def)

theorem update_keeps_id_and_createdAt_witness:
  "map_option c_id (getContent example_store 2) = Some 2
   \<and> map_option c_createdAt (getContent example_store 2) = Some 20
   \<and> (\<exists>r. getContent (fst (updateContent example_store 2 (no_updates\<lparr>u_title := Some ''renamed''\<rparr>))) 2
          = Some r
        \<and> c_id r = 2 \<and> c_createdAt r = 20)"
proof -
  let ?u = "no_updates\<lparr>u_title := Some ''renamed''\<rparr>"
  let ?e = "\<lparr>c_id = 2, c_userId = 1, c_title = ''title'', c_description = None,
               c_platform = ''youtube'', c_contentType = ''post'', c_brief = ''brief'',
               c_generatedContent = ''text'', c_images = None, c_metadata = None,
               c_createdAt = 20\<rparr>"
  have hit: "getContent example_store 2 = Some ?e"
    by (simp add: example_store_eq getContent_def js_map_get_def)
  have n: "u_id ?u = None" "u_createdAt ?u = None"
    by (simp_all add: no_updates_def)
  from update_keeps_id_and_createdAt [OF n hit] hit show ?thesis
    by auto
qed

end
